theory Spec2Isabelle
  imports Complex_Main
begin

section \<open>Values, exceptions and the environment of \<open>user.py\<close>\<close>

text \<open>
  The values that travel through \<open>user.py\<close> are what \<open>response.json()\<close> returns and what
  the handlers put in the session and in their view models: \<open>None\<close>, booleans, integers,
  floats, strings, lists and dictionaries. A Python \<open>str\<close> is modelled by its UTF-8 bytes
  (an Isabelle \<open>char\<close> is a byte). A Python \<open>float\<close> is a double: a finite value, given
  by the real number it stands for, an infinity, or NaN (\<open>json\<close> reads \<open>Infinity\<close> and \<open>NaN\<close>).
  A dictionary is an association list in insertion order, looked up by its first matching
  key.
\<close>

datatype pyfloat = Finite real | PosInf | NegInf | NaN

datatype json =
    JNull
  | JBool bool
  | JInt int
  | JFloat pyfloat
  | JStr string
  | JArr "json list"
  | JObj "(string \<times> json) list"

text \<open>The exceptions the handlers can raise; an unhandled one ends the request.\<close>

datatype exn =
    KeyError string
  | TypeError
  | IndexError
  | AttributeError string
  | JSONDecodeError
  | RequestException
  | OverflowError

text \<open>
  An upstream call made through the \<open>requests\<close> library, and the part of its response
  that the code reads: \<open>status_code\<close>, and \<open>body\<close>, the value of \<open>response.json()\<close>
  (\<open>None\<close> when the text is not JSON and \<open>response.json()\<close> raises).
\<close>

datatype call =
    HttpPost string "(string \<times> json) list"
  | HttpGet string "(string \<times> string) list"

record response =
  status_code :: int
  body :: "json option"

text \<open>What a view function hands back to Flask. \<open>NoReply\<close> is a view that returns \<open>None\<close>.\<close>

datatype reply =
    Redirect string
  | Render string "(string \<times> json) list"
  | Jsonify json int
  | NoReply

text \<open>
  Everything the module reads from outside itself:
  \<^item> \<open>client_id\<close>, \<open>client_secret\<close>: the values of \<open>os.getenv\<close> (\<open>JNull\<close> when unset);
  \<^item> \<open>upstream\<close>: the remote service, which answers a call given the calls made so far,
    or fails at network level;
  \<^item> \<open>repr_other\<close>: Python's \<open>str()\<close> on floats, lists and dictionaries;
  \<^item> \<open>py_int\<close>: Python's \<open>int()\<close> on a form string (\<open>None\<close> when it raises \<open>ValueError\<close>);
  \<^item> \<open>request_post\<close>: the attribute \<open>post\<close> of Flask's \<open>request\<close> object, if it has one;
  \<^item> \<open>tracks_view\<close>: lines 134 to 158, whose duration formatting is floating-point
    arithmetic;
  \<^item> \<open>fadd\<close>: the addition of two doubles, with its rounding;
  \<^item> \<open>int_to_float\<close>: the conversion of an integer to a double, which rounds, and raises
    \<open>OverflowError\<close> when the integer is too large.
\<close>

record env =
  client_id :: json
  client_secret :: json
  upstream :: "call list \<Rightarrow> call \<Rightarrow> exn + response"
  repr_other :: "json \<Rightarrow> string"
  py_int :: "string \<Rightarrow> int option"
  request_post :: "(string \<Rightarrow> (string \<times> json) list \<Rightarrow> exn + response) option"
  tracks_view :: "json \<Rightarrow> exn + json list"
  fadd :: "pyfloat \<Rightarrow> pyfloat \<Rightarrow> pyfloat"
  int_to_float :: "int \<Rightarrow> exn + pyfloat"

text \<open>
  The state a request runs in: Flask's \<open>session\<close> dictionary and the log of the upstream
  calls made so far.
\<close>

record world =
  session :: "string \<rightharpoonup> json"
  calls :: "call list"

definition REDIRECT_URI :: string where
  "REDIRECT_URI = ''http://localhost:5000/callback''"

definition AUTH_URL :: string where
  "AUTH_URL = ''https://accounts.spotify.com/authorize''"

definition TOKEN_URL :: string where
  "TOKEN_URL = ''https://accounts.spotify.com/api/token''"

definition API_BASE_URL :: string where
  "API_BASE_URL = ''https://api.spotify.com/v1''"

subsection \<open>Python's operations on values\<close>

text \<open>\<open>d[k]\<close> with a string key: only a dictionary accepts it.\<close>

fun getitem :: "json \<Rightarrow> string \<Rightarrow> exn + json" where
  "getitem (JObj kvs) k = (case map_of kvs k of None \<Rightarrow> Inl (KeyError k) | Some v \<Rightarrow> Inr v)"
| "getitem _ k = Inl TypeError"

definition is_cont :: "char \<Rightarrow> bool" where
  "is_cont c = (128 \<le> (of_char c :: nat) \<and> (of_char c :: nat) < 192)"

text \<open>\<open>x[0]\<close>: the first element of a list, the first code point of a string.\<close>

fun getitem0 :: "json \<Rightarrow> exn + json" where
  "getitem0 (JArr []) = Inl IndexError"
| "getitem0 (JArr (x # xs)) = Inr x"
| "getitem0 (JStr []) = Inl IndexError"
| "getitem0 (JStr (c # cs)) = Inr (JStr (c # takeWhile is_cont cs))"
| "getitem0 (JObj kvs) = Inl (KeyError ''0'')"
| "getitem0 _ = Inl TypeError"

text \<open>Truth value of a value in an \<open>if\<close>.\<close>

fun truthy :: "json \<Rightarrow> bool" where
  "truthy JNull = False"
| "truthy (JBool b) = b"
| "truthy (JInt i) = (i \<noteq> 0)"
| "truthy (JFloat x) = (x \<noteq> Finite 0)"
| "truthy (JStr s) = (s \<noteq> [])"
| "truthy (JArr xs) = (xs \<noteq> [])"
| "truthy (JObj kvs) = (kvs \<noteq> [])"

function utf8_chars :: "string \<Rightarrow> string list" where
  "utf8_chars [] = []"
| "utf8_chars (c # cs) = (c # takeWhile is_cont cs) # utf8_chars (dropWhile is_cont cs)"
  by pat_completeness auto
termination
  by (relation "measure length") (auto simp: length_dropWhile_le less_Suc_eq_le)

text \<open>
  The elements a \<open>for\<close> loop sees: those of a list, the keys of a dictionary, the code
  points of a string; anything else is not iterable.
\<close>

fun iter_json :: "json \<Rightarrow> exn + json list" where
  "iter_json (JArr xs) = Inr xs"
| "iter_json (JObj kvs) = Inr (map (\<lambda>kv. JStr (fst kv)) kvs)"
| "iter_json (JStr s) = Inr (map JStr (utf8_chars s))"
| "iter_json _ = Inl TypeError"

text \<open>
  The real number a value stands for when it is compared with a float (\<open>True\<close> is 1), if
  it is a finite number. Python compares a float with an integer exactly.
\<close>

fun num_of :: "json \<Rightarrow> real option" where
  "num_of (JInt i) = Some (real_of_int i)"
| "num_of (JFloat (Finite x)) = Some x"
| "num_of (JBool b) = Some (if b then 1 else 0)"
| "num_of _ = None"

text \<open>\<open>t > v\<close> for a finite float \<open>t\<close>: nothing is greater than NaN or than infinity.\<close>

fun float_gt :: "real \<Rightarrow> json \<Rightarrow> exn + bool" where
  "float_gt t (JFloat PosInf) = Inr False"
| "float_gt t (JFloat NegInf) = Inr True"
| "float_gt t (JFloat NaN) = Inr False"
| "float_gt t v = (case num_of v of None \<Rightarrow> Inl TypeError | Some x \<Rightarrow> Inr (t > x))"

text \<open>
  The right operand of \<open>t + v\<close> for a float \<open>t\<close>: a float as it is, an integer or a boolean
  converted to a float, anything else a \<open>TypeError\<close>.
\<close>

fun to_float :: "env \<Rightarrow> json \<Rightarrow> exn + pyfloat" where
  "to_float e (JFloat x) = Inr x"
| "to_float e (JInt i) = int_to_float e i"
| "to_float e (JBool b) = Inr (Finite (if b then 1 else 0))"
| "to_float e _ = Inl TypeError"

text \<open>\<open>t + v\<close> for a finite float \<open>t\<close>.\<close>

definition float_add :: "env \<Rightarrow> real \<Rightarrow> json \<Rightarrow> exn + json" where
  "float_add e t v =
     (case to_float e v of Inl x \<Rightarrow> Inl x | Inr x \<Rightarrow> Inr (JFloat (fadd e (Finite t) x)))"

definition digit_char :: "nat \<Rightarrow> char" where
  "digit_char n = ''0123456789'' ! (n mod 10)"

function show_nat :: "nat \<Rightarrow> string" where
  "show_nat n = (if n < 10 then [digit_char n] else show_nat (n div 10) @ [digit_char (n mod 10)])"
  by pat_completeness auto
termination
  by (relation "measure id") auto

definition show_int :: "int \<Rightarrow> string" where
  "show_int i = (if i < 0 then CHR ''-'' # show_nat (nat (- i)) else show_nat (nat i))"

text \<open>\<open>str(v)\<close>, which is also what an f-string writes for \<open>{v}\<close>.\<close>

fun py_str :: "env \<Rightarrow> json \<Rightarrow> string" where
  "py_str e (JStr s) = s"
| "py_str e (JInt i) = show_int i"
| "py_str e (JBool b) = (if b then ''True'' else ''False'')"
| "py_str e JNull = ''None''"
| "py_str e v = repr_other e v"

subsection \<open>Session and upstream calls\<close>

definition session_get :: "world \<Rightarrow> string \<Rightarrow> exn + json" where
  "session_get w k = (case session w k of None \<Rightarrow> Inl (KeyError k) | Some v \<Rightarrow> Inr v)"

definition session_set :: "string \<Rightarrow> json \<Rightarrow> world \<Rightarrow> world" where
  "session_set k v w = w\<lparr>session := (session w)(k \<mapsto> v)\<rparr>"

definition requests_post ::
  "env \<Rightarrow> string \<Rightarrow> (string \<times> json) list \<Rightarrow> world \<Rightarrow> (exn + response) \<times> world" where
  "requests_post e url dat w =
     (upstream e (calls w) (HttpPost url dat), w\<lparr>calls := calls w @ [HttpPost url dat]\<rparr>)"

definition requests_get ::
  "env \<Rightarrow> string \<Rightarrow> (string \<times> string) list \<Rightarrow> world \<Rightarrow> (exn + response) \<times> world" where
  "requests_get e url headers w =
     (upstream e (calls w) (HttpGet url headers), w\<lparr>calls := calls w @ [HttpGet url headers]\<rparr>)"

definition response_json :: "response \<Rightarrow> exn + json" where
  "response_json r = (case body r of None \<Rightarrow> Inl JSONDecodeError | Some v \<Rightarrow> Inr v)"

section \<open>The authorization-code exchange: \<open>callback\<close>\<close>

text \<open>
  Lines 49 to 73. \<open>args\<close> is \<open>request.args\<close>, \<open>now\<close> the value of
  \<open>datetime.now().timestamp()\<close> on line 71. The three session writes happen one after the
  other, each after the subscript it stores, so an exception leaves the earlier writes in
  the session dictionary.
\<close>

definition callback ::
  "env \<Rightarrow> real \<Rightarrow> (string \<rightharpoonup> string) \<Rightarrow> world \<Rightarrow> (exn + reply) \<times> world" where
  "callback e now args w =
     (case args ''error'' of
        Some err \<Rightarrow> (Inr (Jsonify (JObj [(''error'', JStr err)]) 200), w)
      | None \<Rightarrow>
        (case args ''code'' of
           None \<Rightarrow> (Inr NoReply, w)
         | Some code \<Rightarrow>
           (let req_body = [(''code'', JStr code),
                            (''grant_type'', JStr ''authorization_code''),
                            (''redirect_uri'', JStr REDIRECT_URI),
                            (''client_id'', client_id e),
                            (''client_secret'', client_secret e)];
                (res, w1) = requests_post e TOKEN_URL req_body w
            in case res of
                 Inl x \<Rightarrow> (Inl x, w1)
               | Inr resp \<Rightarrow>
                 (case response_json resp of
                    Inl x \<Rightarrow> (Inl x, w1)
                  | Inr token_info \<Rightarrow>
                    (case getitem token_info ''access_token'' of
                       Inl x \<Rightarrow> (Inl x, w1)
                     | Inr a \<Rightarrow>
                       (let w2 = session_set ''access_token'' a w1
                        in case getitem token_info ''refresh_token'' of
                             Inl x \<Rightarrow> (Inl x, w2)
                           | Inr r \<Rightarrow>
                             (let w3 = session_set ''refresh_token'' r w2
                              in case getitem token_info ''expires_in'' of
                                   Inl x \<Rightarrow> (Inl x, w3)
                                 | Inr ei \<Rightarrow>
                                   (case float_add e now ei of
                                      Inl x \<Rightarrow> (Inl x, w3)
                                    | Inr t \<Rightarrow>
                                      (Inr (Redirect ''/home''),
                                       session_set ''expires_at'' t w3)))))))))"


section \<open>The resource handlers\<close>

definition exn_bind :: "exn + 'a \<Rightarrow> ('a \<Rightarrow> exn + 'b) \<Rightarrow> exn + 'b" where
  "exn_bind m f = (case m of Inl x \<Rightarrow> Inl x | Inr v \<Rightarrow> f v)"

text \<open>
  Lines 81 to 89, repeated word for word at 121 to 129, 169 to 177 and 205 to 213: the
  check that a credential is stored, the expiry test, and the header built from the stored
  access token. The outcome is an exception, an early reply, or the headers.
\<close>

definition credential_gate :: "env \<Rightarrow> real \<Rightarrow> world \<Rightarrow> exn + (reply + (string \<times> string) list)" where
  "credential_gate e now w =
     (case session w ''access_token'' of
        None \<Rightarrow> Inr (Inl (Redirect ''/login''))
      | Some a \<Rightarrow>
        exn_bind (session_get w ''expires_at'') (\<lambda>ea.
        exn_bind (float_gt now ea) (\<lambda>expired.
          if expired then Inr (Inl (Redirect ''/refresh-token''))
          else Inr (Inr [(''Authorization'', ''Bearer '' @ py_str e a)]))))"

text \<open>Lines 96 to 109: one entry of the artists view.\<close>

definition artist_entry :: "json \<Rightarrow> exn + json" where
  "artist_entry artist =
     exn_bind (getitem artist ''name'') (\<lambda>artist_name.
     exn_bind (getitem artist ''images'') (\<lambda>imgs.
     exn_bind (if truthy imgs
               then exn_bind (getitem artist ''images'') (\<lambda>imgs2.
                    exn_bind (getitem0 imgs2) (\<lambda>img. getitem img ''url''))
               else Inr JNull) (\<lambda>artist_picture.
     exn_bind (getitem artist ''popularity'') (\<lambda>popularity.
     exn_bind (getitem artist ''genres'') (\<lambda>genres.
       Inr (JObj [(''name'', artist_name), (''picture'', artist_picture),
                  (''popularity'', popularity), (''genres'', genres)]))))))"

text \<open>A \<open>for\<close> loop that appends one entry per element and stops at the first exception.\<close>

fun collect :: "(json \<Rightarrow> exn + json) \<Rightarrow> json list \<Rightarrow> exn + json list" where
  "collect f [] = Inr []"
| "collect f (x # xs) = (case f x of Inl err \<Rightarrow> Inl err
                        | Inr d \<Rightarrow> (case collect f xs of Inl err \<Rightarrow> Inl err
                                   | Inr ds \<Rightarrow> Inr (d # ds)))"

definition get_top_artists :: "env \<Rightarrow> real \<Rightarrow> world \<Rightarrow> (exn + reply) \<times> world" where
  "get_top_artists e now w =
     (case credential_gate e now w of
        Inl x \<Rightarrow> (Inl x, w)
      | Inr (Inl r) \<Rightarrow> (Inr r, w)
      | Inr (Inr headers) \<Rightarrow>
        (let (res, w1) = requests_get e (API_BASE_URL @ ''/me/top/artists'') headers w
         in case res of
              Inl x \<Rightarrow> (Inl x, w1)
            | Inr resp \<Rightarrow>
              if status_code resp = 200
              then (exn_bind (response_json resp) (\<lambda>response_data.
                    exn_bind (getitem response_data ''items'') (\<lambda>items.
                    exn_bind (iter_json items) (\<lambda>xs.
                    exn_bind (collect artist_entry xs) (\<lambda>artists.
                      Inr (Render ''artists.html'' [(''artists'', JArr artists)]))))), w1)
              else (Inr (Redirect ''/login''), w1)))"

text \<open>
  \<open>get_top_tracks\<close>, lines 118 to 164. The loop of lines 134 to 158 divides and rounds
  floats to format a duration; it is the parameter \<open>tracks_view\<close>.
\<close>

definition get_top_tracks :: "env \<Rightarrow> real \<Rightarrow> world \<Rightarrow> (exn + reply) \<times> world" where
  "get_top_tracks e now w =
     (case credential_gate e now w of
        Inl x \<Rightarrow> (Inl x, w)
      | Inr (Inl r) \<Rightarrow> (Inr r, w)
      | Inr (Inr headers) \<Rightarrow>
        (let (res, w1) = requests_get e (API_BASE_URL @ ''/me/top/tracks'') headers w
         in case res of
              Inl x \<Rightarrow> (Inl x, w1)
            | Inr resp \<Rightarrow>
              if status_code resp = 200
              then (exn_bind (response_json resp) (\<lambda>response_data.
                    exn_bind (tracks_view e response_data) (\<lambda>tracks.
                      Inr (Render ''tracks.html'' [(''tracks'', JArr tracks)]))), w1)
              else (Inr (Redirect ''/login''), w1)))"

text \<open>Lines 183 to 188: one entry of the playlists view.\<close>

definition playlist_entry :: "json \<Rightarrow> exn + json" where
  "playlist_entry playlist =
     exn_bind (getitem playlist ''name'') (\<lambda>name.
     exn_bind (getitem playlist ''owner'') (\<lambda>owner.
     exn_bind (getitem owner ''display_name'') (\<lambda>creator.
     exn_bind (getitem playlist ''description'') (\<lambda>description.
       Inr (JObj [(''name'', name), (''creator'', creator),
                  (''description'', description)])))))"

text \<open>
  \<open>get_playlists\<close>, lines 167 to 190. The response is parsed and walked whatever its
  status code is.
\<close>

definition get_playlists :: "env \<Rightarrow> real \<Rightarrow> world \<Rightarrow> (exn + reply) \<times> world" where
  "get_playlists e now w =
     (case credential_gate e now w of
        Inl x \<Rightarrow> (Inl x, w)
      | Inr (Inl r) \<Rightarrow> (Inr r, w)
      | Inr (Inr headers) \<Rightarrow>
        (let (res, w1) = requests_get e (API_BASE_URL @ ''/me/playlists'') headers w
         in case res of
              Inl x \<Rightarrow> (Inl x, w1)
            | Inr resp \<Rightarrow>
              (exn_bind (response_json resp) (\<lambda>response_data.
               exn_bind (getitem response_data ''items'') (\<lambda>items.
               exn_bind (iter_json items) (\<lambda>xs.
               exn_bind (collect playlist_entry xs) (\<lambda>playlists.
                 Inr (Render ''playlists.html'' [(''playlists'', JArr playlists)]))))), w1)))"

subsection \<open>The recommendations URL\<close>

text \<open>
  \<open>urllib.parse.urlencode\<close> on a dictionary: each key and each \<open>str()\<close> of a value goes
  through \<open>quote_plus\<close>, which keeps letters, digits and \<open>_.-~\<close>, writes a space as \<open>+\<close>
  and every other byte as \<open>%XX\<close> in upper-case hexadecimal.
\<close>

definition safe_char :: "char \<Rightarrow> bool" where
  "safe_char c =
     (c \<in> set ''ABCDEFGHIJKLMNOPQRSTUVWXYZabcdefghijklmnopqrstuvwxyz0123456789_.-~'')"

definition hex_digit :: "nat \<Rightarrow> char" where
  "hex_digit n = ''0123456789ABCDEF'' ! (n mod 16)"

definition quote_char :: "char \<Rightarrow> string" where
  "quote_char c =
     (if safe_char c then [c]
      else if c = CHR '' '' then ''+''
      else [CHR ''%'', hex_digit (of_char c div 16), hex_digit (of_char c mod 16)])"

definition quote_plus :: "string \<Rightarrow> string" where
  "quote_plus s = concat (map quote_char s)"

fun join :: "string \<Rightarrow> string list \<Rightarrow> string" where
  "join sep [] = []"
| "join sep [x] = x"
| "join sep (x # y # ys) = x @ sep @ join sep (y # ys)"

definition urlencode :: "env \<Rightarrow> (string \<times> json) list \<Rightarrow> string" where
  "urlencode e params =
     join ''&'' (map (\<lambda>kv. quote_plus (fst kv) @ ''='' @ quote_plus (py_str e (snd kv))) params)"

text \<open>Lines 192 to 200.\<close>

definition build_recommendations_url :: "env \<Rightarrow> (string \<times> json) list \<Rightarrow> string" where
  "build_recommendations_url e params =
     (let base_url = API_BASE_URL @ ''/recommendations'';
          query_params = urlencode e params
      in base_url @ ''?'' @ query_params)"

text \<open>Lines 235 to 248, and again 375 to 384: one entry of a suggestions list.\<close>

definition suggestion_entry :: "json \<Rightarrow> exn + json" where
  "suggestion_entry item =
     exn_bind (getitem item ''name'') (\<lambda>song.
     exn_bind (getitem item ''artists'') (\<lambda>artists.
     exn_bind (getitem0 artists) (\<lambda>first.
     exn_bind (getitem first ''name'') (\<lambda>artist.
     exn_bind (getitem item ''popularity'') (\<lambda>popularity.
       Inr (JObj [(''name'', song), (''artist'', artist),
                  (''popularity'', popularity)]))))))"

definition suggestions_of :: "response \<Rightarrow> exn + json list" where
  "suggestions_of resp =
     exn_bind (response_json resp) (\<lambda>response_data.
     exn_bind (getitem response_data ''tracks'') (\<lambda>tracks.
     exn_bind (iter_json tracks) (\<lambda>xs. collect suggestion_entry xs)))"

text \<open>\<open>get_song_suggestions\<close>, lines 202 to 252.\<close>

definition get_song_suggestions :: "env \<Rightarrow> real \<Rightarrow> world \<Rightarrow> (exn + reply) \<times> world" where
  "get_song_suggestions e now w =
     (case credential_gate e now w of
        Inl x \<Rightarrow> (Inl x, w)
      | Inr (Inl r) \<Rightarrow> (Inr r, w)
      | Inr (Inr headers) \<Rightarrow>
        (let params = [(''seed_artists'', JStr ''5ficpwpxT4Gz9OsA3h3fFA''),
                       (''seed_genres'', JStr ''work-out''),
                       (''limit'', JInt 15),
                       (''market'', JStr ''US'')];
             url = build_recommendations_url e params;
             (res, w1) = requests_get e url headers w
         in case res of
              Inl x \<Rightarrow> (Inl x, w1)
            | Inr resp \<Rightarrow>
              if status_code resp = 200
              then (exn_bind (suggestions_of resp) (\<lambda>suggestions.
                      Inr (Render ''suggestions.html'' [(''data'', JArr suggestions)])), w1)
              else (Inr (Redirect ''/login''), w1)))"

subsection \<open>Artist search and \<open>/get-recommendations\<close>\<close>

text \<open>
  \<open>get_artist_id\<close>, lines 254 to 274. The result \<open>None\<close> is Python's \<open>None\<close>, returned
  when the status is not 200 and when the item list is falsy.
\<close>

definition get_artist_id :: "env \<Rightarrow> string \<Rightarrow> world \<Rightarrow> (exn + json option) \<times> world" where
  "get_artist_id e artist_name w =
     (case session_get w ''access_token'' of
        Inl x \<Rightarrow> (Inl x, w)
      | Inr a \<Rightarrow>
        (let headers = [(''Authorization'', ''Bearer '' @ py_str e a)];
             search_url = API_BASE_URL @ ''/search?q='' @ artist_name
                            @ ''&type=artist&market=US&limit=1&offset=0'';
             (res, w1) = requests_get e search_url headers w
         in case res of
              Inl x \<Rightarrow> (Inl x, w1)
            | Inr resp \<Rightarrow>
              if status_code resp = 200
              then (exn_bind (response_json resp) (\<lambda>data.
                    exn_bind (getitem data ''artists'') (\<lambda>as.
                    exn_bind (getitem as ''items'') (\<lambda>items.
                      if truthy items
                      then exn_bind (getitem data ''artists'') (\<lambda>as2.
                           exn_bind (getitem as2 ''items'') (\<lambda>items2.
                           exn_bind (getitem0 items2) (\<lambda>first.
                           exn_bind (getitem first ''id'') (\<lambda>i. Inr (Some i)))))
                      else Inr None))), w1)
              else (Inr None, w1)))"

text \<open>\<open>request.form.get(key, default, type=int)\<close>.\<close>

definition form_get_int :: "env \<Rightarrow> (string \<rightharpoonup> string) \<Rightarrow> string \<Rightarrow> int \<Rightarrow> int" where
  "form_get_int e form k d =
     (case form k of None \<Rightarrow> d
      | Some s \<Rightarrow> (case py_int e s of None \<Rightarrow> d | Some i \<Rightarrow> i))"

definition form_getitem :: "(string \<rightharpoonup> string) \<Rightarrow> string \<Rightarrow> exn + string" where
  "form_getitem form k = (case form k of None \<Rightarrow> Inl (KeyError k) | Some s \<Rightarrow> Inr s)"

text \<open>The body of the \<open>try\<close> block, lines 347 to 391.\<close>

definition get_recommendations_try ::
  "env \<Rightarrow> (string \<rightharpoonup> string) \<Rightarrow> world \<Rightarrow> (exn + reply) \<times> world" where
  "get_recommendations_try e form w =
     (case form_getitem form ''artist'' of
        Inl x \<Rightarrow> (Inl x, w)
      | Inr artist_name \<Rightarrow>
        (case form_getitem form ''genre'' of
           Inl x \<Rightarrow> (Inl x, w)
         | Inr selected_genres \<Rightarrow>
           (let min_pop = form_get_int e form ''minimum'' 0;
                max_pop = form_get_int e form ''maximum'' 100;
                (found, w1) = get_artist_id e artist_name w
            in case found of
                 Inl x \<Rightarrow> (Inl x, w1)
               | Inr artist_id \<Rightarrow>
                 (case (case artist_id of None \<Rightarrow> None
                        | Some i \<Rightarrow> if truthy i then Some i else None) of
                    None \<Rightarrow> (Inr (Jsonify (JObj [(''error'', JStr ''No artist found'')]) 404), w1)
                  | Some i \<Rightarrow>
                    (let params = [(''seed_artists'', i),
                                   (''seed_genres'', JStr selected_genres),
                                   (''limit'', JInt 15),
                                   (''market'', JStr ''US''),
                                   (''min_popularity'', JInt min_pop),
                                   (''max_popularity'', JInt max_pop)];
                         url = build_recommendations_url e params
                     in case session_get w1 ''access_token'' of
                          Inl x \<Rightarrow> (Inl x, w1)
                        | Inr a \<Rightarrow>
                          (let headers = [(''Authorization'', ''Bearer '' @ py_str e a)];
                               (res, w2) = requests_get e url headers w1
                           in case res of
                                Inl x \<Rightarrow> (Inl x, w2)
                              | Inr resp \<Rightarrow>
                                if status_code resp = 200
                                then (exn_bind (suggestions_of resp) (\<lambda>suggestions.
                                        Inr (Jsonify (JArr suggestions) 200)), w2)
                                else (Inr (Jsonify (JObj [(''error'',
                                        JStr ''An error occurred while fetching recommendations'')])
                                        400), w2)))))))"

text \<open>
  \<open>get_recommendations\<close>, lines 343 to 396: every exception of the \<open>try\<close> block becomes the
  reply with status 500.
\<close>

definition get_recommendations ::
  "env \<Rightarrow> string \<Rightarrow> (string \<rightharpoonup> string) \<Rightarrow> world \<Rightarrow> (exn + reply) \<times> world" where
  "get_recommendations e method form w =
     (if method = ''POST''
      then (case get_recommendations_try e form w of
              (Inl x, w1) \<Rightarrow>
                (Inr (Jsonify (JObj [(''error'',
                   JStr ''An error occurred while processing the request'')]) 500), w1)
            | (Inr r, w1) \<Rightarrow> (Inr r, w1))
      else (Inr (Jsonify (JObj [(''error'', JStr ''Invalid request'')]) 400), w))"

section \<open>The refresh route: \<open>refresh_token\<close>\<close>

text \<open>
  Lines 398 to 421. The first test reads the session key \<open>refresh-token\<close>, with a hyphen;
  \<open>callback\<close> stores the token under \<open>refresh_token\<close>. The call on line 413 is
  \<open>request.post\<close>, an attribute of Flask's request object, not \<open>requests.post\<close>. The clock
  is read on line 404 (\<open>now\<close>) and again on line 418 (\<open>now2\<close>).
\<close>

definition refresh_token :: "env \<Rightarrow> real \<Rightarrow> real \<Rightarrow> world \<Rightarrow> (exn + reply) \<times> world" where
  "refresh_token e now now2 w =
     (case session w ''refresh-token'' of
        None \<Rightarrow> (Inr (Render ''home_of_app.html'' []), w)
      | Some u \<Rightarrow>
        (case exn_bind (session_get w ''expires_at'') (float_gt now) of
           Inl x \<Rightarrow> (Inl x, w)
         | Inr False \<Rightarrow> (Inr NoReply, w)
         | Inr True \<Rightarrow>
           (case session_get w ''refresh_token'' of
              Inl x \<Rightarrow> (Inl x, w)
            | Inr rt \<Rightarrow>
              (let req_body = [(''grant_type'', JStr ''refresh-token''),
                               (''refresh_token'', rt),
                               (''client_id'', client_id e),
                               (''client_secret'', client_secret e)]
               in case request_post e of
                    None \<Rightarrow> (Inl (AttributeError ''post''), w)
                  | Some post \<Rightarrow>
                    (case exn_bind (post TOKEN_URL req_body) response_json of
                       Inl x \<Rightarrow> (Inl x, w)
                     | Inr new_token_info \<Rightarrow>
                       (case getitem new_token_info ''access_token'' of
                          Inl x \<Rightarrow> (Inl x, w)
                        | Inr a \<Rightarrow>
                          (let w1 = session_set ''access_token'' a w
                           in case exn_bind (getitem new_token_info ''expires_in'')
                                     (float_add e now2) of
                                Inl x \<Rightarrow> (Inl x, w1)
                              | Inr t \<Rightarrow>
                                (Inr (Redirect ''/home''),
                                 session_set ''expires_at'' t w1))))))))"


section \<open>Decoding a query string\<close>

text \<open>
  The specification speaks of decoding the query string of a recommendations URL. The
  repository has no decoder; the definitions below follow the specification's words with
  the decoder of Python's \<open>urllib.parse\<close>, \<open>parse_qsl\<close> with \<open>keep_blank_values=True\<close>:
  the query is cut at every \<open>&\<close>, empty pieces are skipped, each piece is cut at its
  first \<open>=\<close>, and both halves go through \<open>unquote_plus\<close>.
\<close>

definition hexval :: "char \<Rightarrow> nat option" where
  "hexval c =
     (let n = (of_char c :: nat)
      in if 48 \<le> n \<and> n \<le> 57 then Some (n - 48)
         else if 65 \<le> n \<and> n \<le> 70 then Some (n - 55)
         else if 97 \<le> n \<and> n \<le> 102 then Some (n - 87)
         else None)"

fun unquote :: "string \<Rightarrow> string" where
  "unquote [] = []"
| "unquote [c] = [c]"
| "unquote [c, d] = [c, d]"
| "unquote (c # h1 # h2 # rest) =
     (if c = CHR ''%''
      then (case (hexval h1, hexval h2) of
              (Some a, Some b) \<Rightarrow> char_of (16 * a + b) # unquote rest
            | _ \<Rightarrow> c # unquote (h1 # h2 # rest))
      else c # unquote (h1 # h2 # rest))"

definition plus_to_space :: "char \<Rightarrow> char" where
  "plus_to_space c = (if c = CHR ''+'' then CHR '' '' else c)"

definition unquote_plus :: "string \<Rightarrow> string" where
  "unquote_plus s = unquote (map plus_to_space s)"

fun split_on :: "char \<Rightarrow> string \<Rightarrow> string list" where
  "split_on sep [] = [[]]"
| "split_on sep (c # cs) =
     (if c = sep then [] # split_on sep cs
      else (case split_on sep cs of
              [] \<Rightarrow> [[c]]
            | x # xs \<Rightarrow> (c # x) # xs))"

definition parse_pair :: "string \<Rightarrow> string \<times> string" where
  "parse_pair p =
     (unquote_plus (takeWhile (\<lambda>c. c \<noteq> CHR ''='') p),
      unquote_plus (drop 1 (dropWhile (\<lambda>c. c \<noteq> CHR ''='') p)))"

definition parse_qsl :: "string \<Rightarrow> (string \<times> string) list" where
  "parse_qsl q = map parse_pair (filter (\<lambda>p. p \<noteq> []) (split_on CHR ''&'' q))"

text \<open>The query of a URL: what follows its first question mark.\<close>

definition url_query :: "string \<Rightarrow> string" where
  "url_query url = drop 1 (dropWhile (\<lambda>c. c \<noteq> CHR ''?'') url)"

section \<open>Test doubles\<close>

text \<open>
  An upstream stub in the manner of the specification's test scenarios: the token endpoint
  accepts a request body once and answers \<open>invalid_grant\<close> when the same body comes again;
  every resource call is answered with status 401 and the service's error object.
\<close>

definition token_reply :: response where
  "token_reply = \<lparr>status_code = 200,
                  body = Some (JObj [(''access_token'', JStr ''AT1''),
                                     (''refresh_token'', JStr ''RT1''),
                                     (''expires_in'', JInt 3600)])\<rparr>"

definition invalid_grant :: response where
  "invalid_grant = \<lparr>status_code = 400,
                    body = Some (JObj [(''error'', JStr ''invalid_grant'')])\<rparr>"

definition unauthorized :: response where
  "unauthorized = \<lparr>status_code = 401,
                   body = Some (JObj [(''error'',
                            JObj [(''status'', JInt 401),
                                  (''message'', JStr ''The access token expired'')])])\<rparr>"

definition once_stub :: "call list \<Rightarrow> call \<Rightarrow> exn + response" where
  "once_stub hist c =
     (case c of
        HttpPost url dat \<Rightarrow> if c \<in> set hist then Inr invalid_grant else Inr token_reply
      | HttpGet url headers \<Rightarrow> Inr unauthorized)"

text \<open>
  Addition and conversion that do not round. On the integers of the scenarios below, all
  far below \<open>2^53\<close>, doubles do not round either.
\<close>

fun exact_add :: "pyfloat \<Rightarrow> pyfloat \<Rightarrow> pyfloat" where
  "exact_add (Finite x) (Finite y) = Finite (x + y)"
| "exact_add NaN y = NaN"
| "exact_add x NaN = NaN"
| "exact_add PosInf NegInf = NaN"
| "exact_add NegInf PosInf = NaN"
| "exact_add PosInf y = PosInf"
| "exact_add x PosInf = PosInf"
| "exact_add NegInf y = NegInf"
| "exact_add x NegInf = NegInf"

definition stub_env :: env where
  "stub_env = \<lparr>client_id = JStr ''cid'', client_secret = JStr ''secret'',
               upstream = once_stub,
               repr_other = (\<lambda>v. ''?''),
               py_int = (\<lambda>s. None),
               request_post = None,
               tracks_view = (\<lambda>v. Inr []),
               fadd = exact_add,
               int_to_float = (\<lambda>i. Inr (Finite (real_of_int i)))\<rparr>"

definition empty_world :: world where
  "empty_world = \<lparr>session = Map.empty, calls = []\<rparr>"

text \<open>The session after a first login at time 1000 against the stub.\<close>

definition logged_in :: world where
  "logged_in = snd (callback stub_env 1000 [''code'' \<mapsto> ''c0de''] empty_world)"

text \<open>A token endpoint whose answer has an access token and nothing else.\<close>

definition partial_env :: env where
  "partial_env = stub_env\<lparr>upstream :=
     (\<lambda>hist c. Inr \<lparr>status_code = 200, body = Some (JObj [(''access_token'', JStr ''AT9'')])\<rparr>)\<rparr>"

text \<open>A token endpoint that reports the lifetime as a string.\<close>

definition string_lifetime_env :: env where
  "string_lifetime_env = stub_env\<lparr>upstream :=
     (\<lambda>hist c. Inr \<lparr>status_code = 200,
                      body = Some (JObj [(''access_token'', JStr ''AT9''),
                                         (''refresh_token'', JStr ''RT9''),
                                         (''expires_in'', JStr ''3600'')])\<rparr>)\<rparr>"

text \<open>
  A refresh answer without a \<open>refresh_token\<close> field, a token endpoint that gives it, and a
  session that also holds the hyphenated key.
\<close>

definition refresh_reply :: response where
  "refresh_reply = \<lparr>status_code = 200,
                    body = Some (JObj [(''access_token'', JStr ''AT2''),
                                       (''expires_in'', JInt 3600)])\<rparr>"

definition refresh_env :: env where
  "refresh_env = stub_env\<lparr>upstream := (\<lambda>hist c. Inr refresh_reply)\<rparr>"

definition hyphen_world :: world where
  "hyphen_world = session_set ''refresh-token'' (JStr ''RT1'') logged_in"

text \<open>A search endpoint: nobody is called \<open>Nobody\<close>, every other name has two matches.\<close>

definition search_stub :: "call list \<Rightarrow> call \<Rightarrow> exn + response" where
  "search_stub hist c =
     (if c = HttpGet (API_BASE_URL @ ''/search?q=Nobody&type=artist&market=US&limit=1&offset=0'')
                     [(''Authorization'', ''Bearer AT1'')]
      then Inr \<lparr>status_code = 200,
                body = Some (JObj [(''artists'', JObj [(''items'', JArr [])])])\<rparr>
      else Inr \<lparr>status_code = 200,
                body = Some (JObj [(''artists'', JObj [(''items'',
                         JArr [JObj [(''id'', JStr ''A1'')], JObj [(''id'', JStr ''A2'')]])])])\<rparr>)"

definition search_env :: env where
  "search_env = stub_env\<lparr>upstream := search_stub\<rparr>"

section \<open>Properties\<close>


lemma logged_in_eq: "logged_in = \<lparr>session = [''access_token'' \<mapsto> JStr ''AT1'', ''refresh_token'' \<mapsto> JStr ''RT1'', ''expires_at'' \<mapsto> JFloat (Finite 4600)],
   calls = [HttpPost TOKEN_URL [(''code'', JStr ''c0de''),
                            (''grant_type'', JStr ''authorization_code''),
                            (''redirect_uri'', JStr REDIRECT_URI),
                            (''client_id'', JStr ''cid''),
                            (''client_secret'', JStr ''secret'')]]\<rparr>"
  by (simp add: logged_in_def callback_def stub_env_def empty_world_def requests_post_def once_stub_def token_reply_def response_json_def session_set_def float_add_def)

lemma float_gt_finite: "num_of v = Some x \<Longrightarrow> float_gt t v = Inr (x < t)"
  by (induction t v rule: float_gt.induct) simp_all

lemma credential_gate_not_expired:
  assumes "session w ''access_token'' = Some a"
    and "session w ''expires_at'' = Some v"
    and "num_of v = Some ea"
    and "now \<le> ea"
  shows "credential_gate e now w = Inr (Inr [(''Authorization'', ''Bearer '' @ py_str e a)])"
  using assms by (simp add: credential_gate_def exn_bind_def session_get_def float_gt_finite)

lemma credential_gate_expired:
  assumes "session w ''access_token'' = Some a"
    and "session w ''expires_at'' = Some v"
    and "num_of v = Some ea"
    and "now > ea"
  shows "credential_gate e now w = Inr (Inl (Redirect ''/refresh-token''))"
  using assms by (simp add: credential_gate_def exn_bind_def session_get_def float_gt_finite)

lemma credential_gate_missing:
  "session w ''access_token'' = None \<Longrightarrow> credential_gate e now w = Inr (Inl (Redirect ''/login''))"
  by (simp add: credential_gate_def)

lemma snd_requests_get [simp]:
  "snd (requests_get e url h w) = w\<lparr>calls := calls w @ [HttpGet url h]\<rparr>"
  by (simp add: requests_get_def)

lemma fst_requests_get [simp]:
  "fst (requests_get e url h w) = upstream e (calls w) (HttpGet url h)"
  by (simp add: requests_get_def)

text \<open>
  Claim C2. When a credential is stored and the clock has not reached its expiry
  (\<open>now < expires_at\<close>), the gate lets the request through with the header built from the
  stored access token, and each of the four resource handlers leaves the session as it
  was and makes exactly one upstream call, the \<open>GET\<close> of its resource with that header: no
  call to the token endpoint.
\<close>
theorem valid_credential_goes_straight_to_get:
  assumes "session w ''access_token'' = Some a"
    and "session w ''expires_at'' = Some v"
    and "num_of v = Some ea"
    and "now < ea"
  shows "credential_gate e now w = Inr (Inr [(''Authorization'', ''Bearer '' @ py_str e a)])
       \<and> snd (get_top_artists e now w) =
           w\<lparr>calls := calls w @ [HttpGet (API_BASE_URL @ ''/me/top/artists'')
                                   [(''Authorization'', ''Bearer '' @ py_str e a)]]\<rparr>
       \<and> snd (get_top_tracks e now w) =
           w\<lparr>calls := calls w @ [HttpGet (API_BASE_URL @ ''/me/top/tracks'')
                                   [(''Authorization'', ''Bearer '' @ py_str e a)]]\<rparr>
       \<and> snd (get_playlists e now w) =
           w\<lparr>calls := calls w @ [HttpGet (API_BASE_URL @ ''/me/playlists'')
                                   [(''Authorization'', ''Bearer '' @ py_str e a)]]\<rparr>
       \<and> snd (get_song_suggestions e now w) =
           w\<lparr>calls := calls w @ [HttpGet (build_recommendations_url e
                                     [(''seed_artists'', JStr ''5ficpwpxT4Gz9OsA3h3fFA''),
                                      (''seed_genres'', JStr ''work-out''),
                                      (''limit'', JInt 15),
                                      (''market'', JStr ''US'')])
                                   [(''Authorization'', ''Bearer '' @ py_str e a)]]\<rparr>"
proof -
  from assms have g: "credential_gate e now w = Inr (Inr [(''Authorization'', ''Bearer '' @ py_str e a)])"
    by (intro credential_gate_not_expired) auto
  show ?thesis
    by (simp add: g get_top_artists_def get_top_tracks_def get_playlists_def
        get_song_suggestions_def requests_get_def Let_def split: sum.splits)
qed

theorem valid_credential_goes_straight_to_get_witness:
  "session logged_in ''access_token'' = Some (JStr ''AT1'')
   \<and> session logged_in ''expires_at'' = Some (JFloat (Finite 4600))
   \<and> num_of (JFloat (Finite 4600)) = Some 4600
   \<and> (4000::real) < 4600
   \<and> credential_gate stub_env 4000 logged_in = Inr (Inr [(''Authorization'', ''Bearer AT1'')])
   \<and> session (snd (get_top_artists stub_env 4000 logged_in)) = session logged_in
   \<and> calls (snd (get_top_artists stub_env 4000 logged_in)) =
       calls logged_in @ [HttpGet ''https://api.spotify.com/v1/me/top/artists''
                            [(''Authorization'', ''Bearer AT1'')]]"
  using valid_credential_goes_straight_to_get
          [of logged_in "JStr ''AT1''" "JFloat (Finite 4600)" 4600 4000 stub_env]
  by (simp add: logged_in_eq API_BASE_URL_def)


lemma snd_requests_post [simp]:
  "snd (requests_post e url d w) = w\<lparr>calls := calls w @ [HttpPost url d]\<rparr>"
  by (simp add: requests_post_def)

lemma fst_requests_post [simp]:
  "fst (requests_post e url d w) = upstream e (calls w) (HttpPost url d)"
  by (simp add: requests_post_def)

text \<open>
  Claim C4. When the token endpoint answers the authorization-code exchange with an access
  token, a refresh token and an \<open>expires_in\<close> that Python can add to a float, \<open>callback\<close>
  stores the two tokens as they came and stores as \<open>expires_at\<close> the sum, in double
  arithmetic, of the clock reading and that reported lifetime, whatever the lifetime is,
  and redirects to \<open>/home\<close>. With the answer \<open>expires_in = 3600\<close> at time 1000 the stored
  expiry is 4600.
\<close>
theorem callback_expiry_is_now_plus_lifetime:
  assumes "args ''error'' = None"
    and "args ''code'' = Some code"
    and "upstream e (calls w)
           (HttpPost TOKEN_URL [(''code'', JStr code),
                                (''grant_type'', JStr ''authorization_code''),
                                (''redirect_uri'', JStr REDIRECT_URI),
                                (''client_id'', client_id e),
                                (''client_secret'', client_secret e)]) = Inr resp"
    and "body resp = Some token_info"
    and "getitem token_info ''access_token'' = Inr a"
    and "getitem token_info ''refresh_token'' = Inr r"
    and "getitem token_info ''expires_in'' = Inr ei"
    and "to_float e ei = Inr lifetime"
  shows "callback e now args w =
           (Inr (Redirect ''/home''),
            w\<lparr>session := (session w)(''access_token'' \<mapsto> a, ''refresh_token'' \<mapsto> r,
                                        ''expires_at'' \<mapsto> JFloat (fadd e (Finite now) lifetime)),
              calls := calls w @
                [HttpPost TOKEN_URL [(''code'', JStr code),
                                     (''grant_type'', JStr ''authorization_code''),
                                     (''redirect_uri'', JStr REDIRECT_URI),
                                     (''client_id'', client_id e),
                                     (''client_secret'', client_secret e)]]\<rparr>)"
  using assms
  by (simp add: callback_def requests_post_def response_json_def session_set_def float_add_def)

theorem callback_expiry_is_now_plus_lifetime_witness:
  "[''code'' \<mapsto> ''c0de''] ''error'' = None
   \<and> [''code'' \<mapsto> ''c0de''] ''code'' = Some ''c0de''
   \<and> upstream stub_env (calls empty_world)
        (HttpPost TOKEN_URL [(''code'', JStr ''c0de''),
                             (''grant_type'', JStr ''authorization_code''),
                             (''redirect_uri'', JStr REDIRECT_URI),
                             (''client_id'', client_id stub_env),
                             (''client_secret'', client_secret stub_env)]) = Inr token_reply
   \<and> body token_reply = Some (JObj [(''access_token'', JStr ''AT1''),
                                     (''refresh_token'', JStr ''RT1''),
                                     (''expires_in'', JInt 3600)])
   \<and> to_float stub_env (JInt 3600) = Inr (Finite 3600)
   \<and> fadd stub_env (Finite 1000) (Finite 3600) = Finite 4600
   \<and> fst (callback stub_env 1000 [''code'' \<mapsto> ''c0de''] empty_world) = Inr (Redirect ''/home'')
   \<and> session (snd (callback stub_env 1000 [''code'' \<mapsto> ''c0de''] empty_world)) ''expires_at''
        = Some (JFloat (Finite 4600))
   \<and> session (snd (callback stub_env 1000 [''code'' \<mapsto> ''c0de''] empty_world)) ''access_token''
        = Some (JStr ''AT1'')
   \<and> session (snd (callback stub_env 1000 [''code'' \<mapsto> ''c0de''] empty_world)) ''refresh_token''
        = Some (JStr ''RT1'')"
  using callback_expiry_is_now_plus_lifetime
          [where args = "[''code'' \<mapsto> ''c0de'']" and code = "''c0de''" and e = stub_env
             and w = empty_world and resp = token_reply
             and token_info = "JObj [(''access_token'', JStr ''AT1''),
                                     (''refresh_token'', JStr ''RT1''),
                                     (''expires_in'', JInt 3600)]"
             and a = "JStr ''AT1''" and r = "JStr ''RT1''" and ei = "JInt 3600"
             and lifetime = "Finite 3600" and now = 1000]
  by (simp add: stub_env_def empty_world_def once_stub_def token_reply_def)

text \<open>
  When the lifetime is an integer too large for a double, line 71 raises \<open>OverflowError\<close>
  after both tokens have been written.
\<close>

lemma callback_lifetime_overflow:
  assumes "args ''error'' = None"
    and "args ''code'' = Some code"
    and "upstream e (calls w)
           (HttpPost TOKEN_URL [(''code'', JStr code),
                                (''grant_type'', JStr ''authorization_code''),
                                (''redirect_uri'', JStr REDIRECT_URI),
                                (''client_id'', client_id e),
                                (''client_secret'', client_secret e)]) = Inr resp"
    and "body resp = Some token_info"
    and "getitem token_info ''access_token'' = Inr a"
    and "getitem token_info ''refresh_token'' = Inr r"
    and "getitem token_info ''expires_in'' = Inr (JInt i)"
    and "int_to_float e i = Inl OverflowError"
  shows "fst (callback e now args w) = Inl OverflowError"
    and "session (snd (callback e now args w)) =
           (session w)(''access_token'' \<mapsto> a, ''refresh_token'' \<mapsto> r)"
  using assms
  by (simp_all add: callback_def requests_post_def response_json_def session_set_def
        float_add_def)

lemma callback_returns:
  assumes "callback e now args w = (Inr r, w')"
  shows "w' = w
       \<or> (\<exists>code resp info a rt ei x.
             args ''code'' = Some code
           \<and> upstream e (calls w)
                (HttpPost TOKEN_URL [(''code'', JStr code),
                                     (''grant_type'', JStr ''authorization_code''),
                                     (''redirect_uri'', JStr REDIRECT_URI),
                                     (''client_id'', client_id e),
                                     (''client_secret'', client_secret e)]) = Inr resp
           \<and> body resp = Some info
           \<and> getitem info ''access_token'' = Inr a
           \<and> getitem info ''refresh_token'' = Inr rt
           \<and> getitem info ''expires_in'' = Inr ei
           \<and> to_float e ei = Inr x
           \<and> session w' = (session w)(''access_token'' \<mapsto> a, ''refresh_token'' \<mapsto> rt,
                                       ''expires_at'' \<mapsto> JFloat (fadd e (Finite now) x)))"
  using assms
  by (auto simp: callback_def requests_post_def response_json_def session_set_def float_add_def
                 Let_def
           split: option.splits sum.splits)

lemma refresh_token_returns:
  assumes "refresh_token e now now2 w = (Inr r, w')"
  shows "w' = w
       \<or> (\<exists>post rt resp info a ei x.
             request_post e = Some post
           \<and> session w ''refresh_token'' = Some rt
           \<and> post TOKEN_URL [(''grant_type'', JStr ''refresh-token''),
                              (''refresh_token'', rt),
                              (''client_id'', client_id e),
                              (''client_secret'', client_secret e)] = Inr resp
           \<and> body resp = Some info
           \<and> getitem info ''access_token'' = Inr a
           \<and> getitem info ''expires_in'' = Inr ei
           \<and> to_float e ei = Inr x
           \<and> w' = w\<lparr>session := (session w)(''access_token'' \<mapsto> a,
                                             ''expires_at'' \<mapsto> JFloat (fadd e (Finite now2) x))\<rparr>)"
  using assms
  by (auto simp: refresh_token_def exn_bind_def session_get_def response_json_def
                 session_set_def float_add_def Let_def
           split: option.splits sum.splits bool.splits)


lemma callback_stub_login:
  "callback stub_env 1000 [''code'' \<mapsto> ''c0de''] empty_world = (Inr (Redirect ''/home''), logged_in)"
  by (simp add: logged_in_eq)
     (simp add: callback_def stub_env_def empty_world_def requests_post_def once_stub_def
        token_reply_def response_json_def session_set_def float_add_def)

lemma hyphen_world_eq:
  "hyphen_world = \<lparr>session = [''access_token'' \<mapsto> JStr ''AT1'', ''refresh_token'' \<mapsto> JStr ''RT1'',
                               ''expires_at'' \<mapsto> JFloat (Finite 4600), ''refresh-token'' \<mapsto> JStr ''RT1''],
                    calls = calls logged_in\<rparr>"
  by (simp add: hyphen_world_def session_set_def logged_in_eq)

text \<open>
  Claim C3 says that the access token and the expiry are always written together, so that
  after an exchange the session holds both new values or neither. Lines 69 to 71 are three
  separate writes. Evaluated against a token endpoint that reports the lifetime as the
  string \<open>3600\<close>: line 71 raises \<open>TypeError\<close> after lines 69 and 70 have stored the new
  tokens. A first login leaves an access token with no expiry at all; a later login
  leaves the new access token beside the expiry of the old one.
\<close>
theorem aborted_exchange_leaves_token_without_expiry:
  "fst (callback string_lifetime_env 1000 [''code'' \<mapsto> ''c0de''] empty_world) = Inl TypeError
   \<and> session (snd (callback string_lifetime_env 1000 [''code'' \<mapsto> ''c0de''] empty_world))
       ''access_token'' = Some (JStr ''AT9'')
   \<and> session (snd (callback string_lifetime_env 1000 [''code'' \<mapsto> ''c0de''] empty_world))
       ''refresh_token'' = Some (JStr ''RT9'')
   \<and> session (snd (callback string_lifetime_env 1000 [''code'' \<mapsto> ''c0de''] empty_world))
       ''expires_at'' = None
   \<and> fst (callback string_lifetime_env 5000 [''code'' \<mapsto> ''c0de''] logged_in) = Inl TypeError
   \<and> session (snd (callback string_lifetime_env 5000 [''code'' \<mapsto> ''c0de''] logged_in))
       ''access_token'' = Some (JStr ''AT9'')
   \<and> session (snd (callback string_lifetime_env 5000 [''code'' \<mapsto> ''c0de''] logged_in))
       ''expires_at'' = Some (JFloat (Finite 4600))"
  by (simp add: logged_in_eq)
     (simp add: callback_def string_lifetime_env_def stub_env_def empty_world_def
        requests_post_def response_json_def session_set_def float_add_def Let_def)

lemma get_artist_id_200:
  assumes "session w ''access_token'' = Some a"
    and "upstream e (calls w)
           (HttpGet (API_BASE_URL @ ''/search?q='' @ name
                       @ ''&type=artist&market=US&limit=1&offset=0'')
                    [(''Authorization'', ''Bearer '' @ py_str e a)]) = Inr resp"
    and "status_code resp = 200"
    and "body resp = Some data"
    and "getitem data ''artists'' = Inr as"
    and "getitem as ''items'' = Inr items"
  shows "fst (get_artist_id e name w) =
           (if truthy items
            then exn_bind (getitem0 items) (\<lambda>first.
                 exn_bind (getitem first ''id'') (\<lambda>i. Inr (Some i)))
            else Inr None)"
  using assms
  by (simp add: get_artist_id_def session_get_def requests_get_def response_json_def exn_bind_def)

text \<open>
  Claim C8. When the search answers with status 200 and a list of items, \<open>get_artist_id\<close>
  returns \<open>None\<close> without raising if the list is empty, and the \<open>id\<close> of the first item if
  it is not, whatever items follow.
\<close>
theorem get_artist_id_first_match_or_none:
  assumes "session w ''access_token'' = Some a"
    and "upstream e (calls w)
           (HttpGet (API_BASE_URL @ ''/search?q='' @ name
                       @ ''&type=artist&market=US&limit=1&offset=0'')
                    [(''Authorization'', ''Bearer '' @ py_str e a)]) = Inr resp"
    and "status_code resp = 200"
    and "body resp = Some data"
    and "getitem data ''artists'' = Inr as"
    and "getitem as ''items'' = Inr (JArr items)"
  shows "(items = [] \<longrightarrow> fst (get_artist_id e name w) = Inr None)
       \<and> (\<forall>first rest i. items = first # rest \<and> getitem first ''id'' = Inr i
            \<longrightarrow> fst (get_artist_id e name w) = Inr (Some i))"
  using get_artist_id_200 [OF assms]
  by (auto simp: exn_bind_def)

lemma logged_in_token: "session logged_in ''access_token'' = Some (JStr ''AT1'')"
  by (simp add: logged_in_eq)

theorem get_artist_id_first_match_or_none_witness:
  "session logged_in ''access_token'' = Some (JStr ''AT1'')
   \<and> upstream search_env (calls logged_in)
        (HttpGet (API_BASE_URL @ ''/search?q='' @ ''Nobody''
                    @ ''&type=artist&market=US&limit=1&offset=0'')
                 [(''Authorization'', ''Bearer '' @ py_str search_env (JStr ''AT1''))])
       = Inr \<lparr>status_code = 200,
              body = Some (JObj [(''artists'', JObj [(''items'', JArr [])])])\<rparr>
   \<and> upstream search_env (calls logged_in)
        (HttpGet (API_BASE_URL @ ''/search?q='' @ ''Queen''
                    @ ''&type=artist&market=US&limit=1&offset=0'')
                 [(''Authorization'', ''Bearer '' @ py_str search_env (JStr ''AT1''))])
       = Inr \<lparr>status_code = 200,
              body = Some (JObj [(''artists'', JObj [(''items'',
                       JArr [JObj [(''id'', JStr ''A1'')], JObj [(''id'', JStr ''A2'')]])])])\<rparr>
   \<and> getitem (JObj [(''id'', JStr ''A1'')]) ''id'' = Inr (JStr ''A1'')
   \<and> fst (get_artist_id search_env ''Nobody'' logged_in) = Inr None
   \<and> fst (get_artist_id search_env ''Queen'' logged_in) = Inr (Some (JStr ''A1''))"
  using get_artist_id_first_match_or_none
          [where w = logged_in and a = "JStr ''AT1''" and e = search_env and name = "''Nobody''"
             and resp = "\<lparr>status_code = 200,
                           body = Some (JObj [(''artists'', JObj [(''items'', JArr [])])])\<rparr>"
             and data = "JObj [(''artists'', JObj [(''items'', JArr [])])]"
             and as = "JObj [(''items'', JArr [])]" and items = "[]"]
        get_artist_id_first_match_or_none
          [where w = logged_in and a = "JStr ''AT1''" and e = search_env and name = "''Queen''"
             and resp = "\<lparr>status_code = 200,
                           body = Some (JObj [(''artists'', JObj [(''items'',
                             JArr [JObj [(''id'', JStr ''A1'')], JObj [(''id'', JStr ''A2'')]])])])\<rparr>"
             and data = "JObj [(''artists'', JObj [(''items'',
                             JArr [JObj [(''id'', JStr ''A1'')], JObj [(''id'', JStr ''A2'')]])])]"
             and as = "JObj [(''items'',
                             JArr [JObj [(''id'', JStr ''A1'')], JObj [(''id'', JStr ''A2'')]])]"
             and items = "[JObj [(''id'', JStr ''A1'')], JObj [(''id'', JStr ''A2'')]]"]
        logged_in_token
  by (simp add: search_env_def search_stub_def stub_env_def API_BASE_URL_def)

lemma get_artist_id_not_200:
  assumes "session w ''access_token'' = Some a"
    and "upstream e (calls w)
           (HttpGet (API_BASE_URL @ ''/search?q='' @ name
                       @ ''&type=artist&market=US&limit=1&offset=0'')
                    [(''Authorization'', ''Bearer '' @ py_str e a)]) = Inr resp"
    and "status_code resp \<noteq> 200"
  shows "get_artist_id e name w =
           (Inr None, w\<lparr>calls := calls w @
              [HttpGet (API_BASE_URL @ ''/search?q='' @ name
                          @ ''&type=artist&market=US&limit=1&offset=0'')
                       [(''Authorization'', ''Bearer '' @ py_str e a)]]\<rparr>)"
  using assms
  by (simp add: get_artist_id_def session_get_def requests_get_def)

text \<open>
  Claim C10. When the search call answers with any status other than 200, \<open>get_artist_id\<close>
  returns \<open>None\<close>, as it does for an empty result, and \<open>/get-recommendations\<close> replies with
  status 404 and the body \<open>{error: 'No artist found'}\<close>.
\<close>
theorem search_failure_reported_as_no_artist:
  assumes "session w ''access_token'' = Some a"
    and "upstream e (calls w)
           (HttpGet (API_BASE_URL @ ''/search?q='' @ name
                       @ ''&type=artist&market=US&limit=1&offset=0'')
                    [(''Authorization'', ''Bearer '' @ py_str e a)]) = Inr resp"
    and "status_code resp \<noteq> 200"
    and "form ''artist'' = Some name"
    and "form ''genre'' = Some genre"
  shows "fst (get_artist_id e name w) = Inr None
       \<and> fst (get_recommendations e ''POST'' form w) =
           Inr (Jsonify (JObj [(''error'', JStr ''No artist found'')]) 404)"
  using get_artist_id_not_200 [OF assms(1-3)] assms(4,5)
  by (simp add: get_recommendations_def get_recommendations_try_def form_getitem_def)

theorem search_failure_reported_as_no_artist_witness:
  "session logged_in ''access_token'' = Some (JStr ''AT1'')
   \<and> upstream stub_env (calls logged_in)
        (HttpGet (API_BASE_URL @ ''/search?q='' @ ''Queen''
                    @ ''&type=artist&market=US&limit=1&offset=0'')
                 [(''Authorization'', ''Bearer '' @ py_str stub_env (JStr ''AT1''))])
       = Inr unauthorized
   \<and> status_code unauthorized \<noteq> 200
   \<and> [''artist'' \<mapsto> ''Queen'', ''genre'' \<mapsto> ''rock''] ''artist'' = Some ''Queen''
   \<and> [''artist'' \<mapsto> ''Queen'', ''genre'' \<mapsto> ''rock''] ''genre'' = Some ''rock''
   \<and> fst (get_artist_id stub_env ''Queen'' logged_in) = Inr None
   \<and> fst (get_recommendations stub_env ''POST''
             [''artist'' \<mapsto> ''Queen'', ''genre'' \<mapsto> ''rock''] logged_in) =
         Inr (Jsonify (JObj [(''error'', JStr ''No artist found'')]) 404)"
  using search_failure_reported_as_no_artist
          [where w = logged_in and a = "JStr ''AT1''" and e = stub_env and name = "''Queen''"
             and resp = unauthorized
             and form = "[''artist'' \<mapsto> ''Queen'', ''genre'' \<mapsto> ''rock'']"
             and genre = "''rock''"]
        logged_in_token
  by (simp add: stub_env_def once_stub_def unauthorized_def)


lemma refresh_token_without_hyphen_key:
  "session w ''refresh-token'' = None \<Longrightarrow>
   refresh_token e now now2 w = (Inr (Render ''home_of_app.html'' []), w)"
  by (simp add: refresh_token_def)

lemma callback_never_stores_hyphen_key:
  "session w ''refresh-token'' = None \<Longrightarrow>
   session (snd (callback e now args w)) ''refresh-token'' = None"
  by (auto simp: callback_def requests_post_def session_set_def Let_def
           split: option.splits sum.splits)

lemma refresh_token_without_post_attribute:
  "request_post e = None \<Longrightarrow>
   snd (refresh_token e now now2 w) = w \<and> fst (refresh_token e now now2 w) \<noteq> Inr (Redirect ''/home'')"
  by (auto simp: refresh_token_def Let_def split: option.splits sum.splits bool.splits)

lemma refresh_token_lines_414_to_420:
  assumes "session w ''refresh-token'' = Some u"
    and "session w ''expires_at'' = Some v"
    and "num_of v = Some ea"
    and "now > ea"
    and "session w ''refresh_token'' = Some rt"
    and "request_post e = Some post"
    and "post TOKEN_URL [(''grant_type'', JStr ''refresh-token''),
                         (''refresh_token'', rt),
                         (''client_id'', client_id e),
                         (''client_secret'', client_secret e)] = Inr resp"
    and "body resp = Some info"
    and "getitem info ''access_token'' = Inr a"
    and "getitem info ''expires_in'' = Inr ei"
    and "to_float e ei = Inr x"
  shows "refresh_token e now now2 w =
           (Inr (Redirect ''/home''),
            w\<lparr>session := (session w)(''access_token'' \<mapsto> a,
                                       ''expires_at'' \<mapsto> JFloat (fadd e (Finite now2) x))\<rparr>)"
  using assms
  by (simp add: refresh_token_def exn_bind_def session_get_def float_gt_finite response_json_def
        session_set_def float_add_def)

text \<open>
  Claim C1 says that an expired credential makes the gate perform one refresh exchange
  with the stored refresh token. Evaluated on the session that a login leaves, one second
  after expiry: \<open>get_top_artists\<close> redirects to \<open>/refresh-token\<close>, and \<open>refresh_token\<close> finds
  no key \<open>refresh-token\<close> in the session, renders the home page and leaves the session and
  the call log as they were, the stored refresh token unused and the expiry still in the
  past. Where the hyphenated key is present, the route stops at \<open>request.post\<close> with an
  attribute error. At the very instant of expiry the gate still lets the request through.
\<close>
theorem expired_credential_is_never_refreshed:
  "get_top_artists stub_env 4601 logged_in = (Inr (Redirect ''/refresh-token''), logged_in)
   \<and> refresh_token stub_env 4601 4601 logged_in = (Inr (Render ''home_of_app.html'' []), logged_in)
   \<and> session logged_in ''refresh_token'' = Some (JStr ''RT1'')
   \<and> session logged_in ''expires_at'' = Some (JFloat (Finite 4600))
   \<and> fst (refresh_token stub_env 4601 4601 hyphen_world) = Inl (AttributeError ''post'')
   \<and> snd (refresh_token stub_env 4601 4601 hyphen_world) = hyphen_world
   \<and> calls (snd (get_top_artists stub_env 4600 logged_in)) =
       calls logged_in @ [HttpGet ''https://api.spotify.com/v1/me/top/artists''
                            [(''Authorization'', ''Bearer AT1'')]]"
proof -
  have g1: "credential_gate stub_env 4601 logged_in = Inr (Inl (Redirect ''/refresh-token''))"
    by (rule credential_gate_expired [where a = "JStr ''AT1''" and v = "JFloat (Finite 4600)" and ea = 4600])
       (simp_all add: logged_in_eq)
  have g2: "credential_gate stub_env 4600 logged_in =
              Inr (Inr [(''Authorization'', ''Bearer '' @ py_str stub_env (JStr ''AT1''))])"
    by (rule credential_gate_not_expired [where v = "JFloat (Finite 4600)" and ea = 4600])
       (simp_all add: logged_in_eq)
  have a: "get_top_artists stub_env 4601 logged_in = (Inr (Redirect ''/refresh-token''), logged_in)"
    by (simp add: get_top_artists_def g1)
  have b: "refresh_token stub_env 4601 4601 logged_in = (Inr (Render ''home_of_app.html'' []), logged_in)"
    by (rule refresh_token_without_hyphen_key) (simp add: logged_in_eq)
  have c: "session logged_in ''refresh_token'' = Some (JStr ''RT1'')"
          "session logged_in ''expires_at'' = Some (JFloat (Finite 4600))"
    by (simp_all add: logged_in_eq)
  have d: "fst (refresh_token stub_env 4601 4601 hyphen_world) = Inl (AttributeError ''post'')"
    by (simp add: hyphen_world_eq refresh_token_def stub_env_def exn_bind_def session_get_def)
  have d2: "snd (refresh_token stub_env 4601 4601 hyphen_world) = hyphen_world"
    using refresh_token_without_post_attribute [of stub_env] by (simp add: stub_env_def)
  have f: "calls (snd (get_top_artists stub_env 4600 logged_in)) =
       calls logged_in @ [HttpGet ''https://api.spotify.com/v1/me/top/artists''
                            [(''Authorization'', ''Bearer AT1'')]]"
    by (simp add: get_top_artists_def g2 requests_get_def Let_def API_BASE_URL_def
          split: sum.splits)
  from a b c d d2 f show ?thesis by simp
qed

lemma callback_without_access_token:
  assumes "args ''error'' = None"
    and "args ''code'' = Some code"
    and "upstream e (calls w)
           (HttpPost TOKEN_URL [(''code'', JStr code),
                                (''grant_type'', JStr ''authorization_code''),
                                (''redirect_uri'', JStr REDIRECT_URI),
                                (''client_id'', client_id e),
                                (''client_secret'', client_secret e)]) = Inr resp"
    and "body resp = Some (JObj kvs)"
    and "map_of kvs ''access_token'' = None"
  shows "fst (callback e now args w) = Inl (KeyError ''access_token'')"
    and "session (snd (callback e now args w)) = session w"
  using assms
  by (simp_all add: callback_def requests_post_def response_json_def)

text \<open>
  Claim C5 says that a failed authorization-code exchange gives an error result and stores
  nothing. Evaluated: a second exchange of the same code, answered with status 400 and
  \<open>invalid_grant\<close>, ends \<open>callback\<close> in an unhandled \<open>KeyError\<close>; an answer that has an
  access token and no refresh token ends it in a \<open>KeyError\<close> after the access token has
  been written to the session, without an expiry.
\<close>
theorem failed_exchange_raises_key_error:
  "callback stub_env 2000 [''code'' \<mapsto> ''c0de''] logged_in =
     (Inl (KeyError ''access_token''),
      logged_in\<lparr>calls := calls logged_in @
         [HttpPost TOKEN_URL [(''code'', JStr ''c0de''),
                              (''grant_type'', JStr ''authorization_code''),
                              (''redirect_uri'', JStr REDIRECT_URI),
                              (''client_id'', JStr ''cid''),
                              (''client_secret'', JStr ''secret'')]]\<rparr>)
   \<and> upstream stub_env (calls logged_in)
        (HttpPost TOKEN_URL [(''code'', JStr ''c0de''),
                             (''grant_type'', JStr ''authorization_code''),
                             (''redirect_uri'', JStr REDIRECT_URI),
                             (''client_id'', client_id stub_env),
                             (''client_secret'', client_secret stub_env)]) = Inr invalid_grant
   \<and> status_code invalid_grant = 400
   \<and> fst (callback partial_env 1000 [''code'' \<mapsto> ''c0de''] empty_world)
       = Inl (KeyError ''refresh_token'')
   \<and> session (snd (callback partial_env 1000 [''code'' \<mapsto> ''c0de''] empty_world)) ''access_token''
       = Some (JStr ''AT9'')
   \<and> session (snd (callback partial_env 1000 [''code'' \<mapsto> ''c0de''] empty_world)) ''expires_at''
       = None"
  by (simp add: logged_in_eq)
     (simp add: callback_def stub_env_def partial_env_def empty_world_def requests_post_def
        once_stub_def invalid_grant_def response_json_def session_set_def Let_def)

text \<open>
  Claim C6 says that a refresh whose answer has only \<open>access_token\<close> and \<open>expires_in\<close>
  replaces the access token and the expiry and keeps the refresh token. Evaluated against
  a token endpoint that gives such an answer: \<open>refresh_token\<close> returns the home page with
  the session untouched, so the refresh token is kept but the access token and the expiry
  are the old ones; with the hyphenated key present it raises the attribute error and the
  session is again untouched.
\<close>
theorem refresh_leaves_access_token_and_expiry:
  "upstream refresh_env (calls logged_in)
     (HttpPost TOKEN_URL [(''grant_type'', JStr ''refresh-token''),
                          (''refresh_token'', JStr ''RT1''),
                          (''client_id'', client_id refresh_env),
                          (''client_secret'', client_secret refresh_env)]) = Inr refresh_reply
   \<and> refresh_token refresh_env 4601 4601 logged_in =
       (Inr (Render ''home_of_app.html'' []), logged_in)
   \<and> session logged_in ''access_token'' = Some (JStr ''AT1'')
   \<and> session logged_in ''expires_at'' = Some (JFloat (Finite 4600))
   \<and> session logged_in ''refresh_token'' = Some (JStr ''RT1'')
   \<and> refresh_token refresh_env 4601 4601 hyphen_world =
       (Inl (AttributeError ''post''), hyphen_world)"
proof -
  have a: "refresh_token refresh_env 4601 4601 logged_in =
             (Inr (Render ''home_of_app.html'' []), logged_in)"
    by (rule refresh_token_without_hyphen_key) (simp add: logged_in_eq)
  have b: "refresh_token refresh_env 4601 4601 hyphen_world =
             (Inl (AttributeError ''post''), hyphen_world)"
    by (simp add: hyphen_world_eq refresh_token_def refresh_env_def stub_env_def exn_bind_def
          session_get_def)
  show ?thesis
    by (simp add: a b) (simp add: logged_in_eq refresh_env_def stub_env_def)
qed

text \<open>
  Claim C7 says that every resource handler redirects to \<open>/login\<close> when the upstream call
  is not answered with status 200. Evaluated with a valid credential and an upstream
  answer of status 401: \<open>get_playlists\<close> reads \<open>items\<close> from the error object and ends in an
  unhandled \<open>KeyError\<close>, where \<open>get_top_artists\<close> redirects to \<open>/login\<close>.
\<close>
theorem playlists_raise_on_upstream_401:
  "upstream stub_env (calls logged_in)
     (HttpGet (API_BASE_URL @ ''/me/playlists'') [(''Authorization'', ''Bearer AT1'')])
     = Inr unauthorized
   \<and> status_code unauthorized = 401
   \<and> get_playlists stub_env 4000 logged_in =
       (Inl (KeyError ''items''),
        logged_in\<lparr>calls := calls logged_in @
          [HttpGet (API_BASE_URL @ ''/me/playlists'') [(''Authorization'', ''Bearer AT1'')]]\<rparr>)
   \<and> fst (get_top_artists stub_env 4000 logged_in) = Inr (Redirect ''/login'')"
proof -
  have g: "credential_gate stub_env 4000 logged_in =
              Inr (Inr [(''Authorization'', ''Bearer '' @ py_str stub_env (JStr ''AT1''))])"
    by (rule credential_gate_not_expired [where v = "JFloat (Finite 4600)" and ea = 4600])
       (simp_all add: logged_in_eq)
  have u: "upstream stub_env hist (HttpGet url hs) = Inr unauthorized" for hist url hs
    by (simp add: stub_env_def once_stub_def)
  have p: "get_playlists stub_env 4000 logged_in =
       (Inl (KeyError ''items''),
        logged_in\<lparr>calls := calls logged_in @
          [HttpGet (API_BASE_URL @ ''/me/playlists'') [(''Authorization'', ''Bearer AT1'')]]\<rparr>)"
    by (simp add: get_playlists_def g requests_get_def u)
       (simp add: unauthorized_def response_json_def exn_bind_def)
  have a: "fst (get_top_artists stub_env 4000 logged_in) = Inr (Redirect ''/login'')"
    by (simp add: get_top_artists_def g requests_get_def u) (simp add: unauthorized_def)
  show ?thesis by (simp add: p a u) (simp add: unauthorized_def)
qed

subsection \<open>What the other handlers do on a failed resource call\<close>

lemma handlers_redirect_without_credential:
  assumes "session w ''access_token'' = None"
  shows "get_top_artists e now w = (Inr (Redirect ''/login''), w)"
    and "get_top_tracks e now w = (Inr (Redirect ''/login''), w)"
    and "get_playlists e now w = (Inr (Redirect ''/login''), w)"
    and "get_song_suggestions e now w = (Inr (Redirect ''/login''), w)"
  using credential_gate_missing [OF assms, of e now]
  by (simp_all add: get_top_artists_def get_top_tracks_def get_playlists_def
        get_song_suggestions_def)

lemma checked_handlers_redirect_on_error_status:
  assumes "credential_gate e now w = Inr (Inr headers)"
    and "\<And>url. upstream e (calls w) (HttpGet url headers) = Inr (resp url)"
    and "\<And>url. status_code (resp url) \<noteq> 200"
  shows "fst (get_top_artists e now w) = Inr (Redirect ''/login'')"
    and "fst (get_top_tracks e now w) = Inr (Redirect ''/login'')"
    and "fst (get_song_suggestions e now w) = Inr (Redirect ''/login'')"
  using assms
  by (simp_all add: get_top_artists_def get_top_tracks_def get_song_suggestions_def
        requests_get_def)

subsection \<open>The recommendations URL and its decoding\<close>


lemma hex_table:
  "map (\<lambda>n. hexval (hex_digit n)) [0..<16] = map Some [0..<16]"
  by (simp add: upt_rec hex_digit_def hexval_def)

lemma hexval_hex_digit:
  assumes "n < 16"
  shows "hexval (hex_digit n) = Some n"
proof -
  have "hexval (hex_digit n) = map (\<lambda>k. hexval (hex_digit k)) [0..<16] ! n"
    using assms by simp
  also have "\<dots> = map Some [0..<16] ! n"
    by (simp only: hex_table)
  also have "\<dots> = Some n"
    using assms by simp
  finally show ?thesis .
qed

lemma hexval_special [simp]:
  "hexval CHR ''+'' = None" "hexval CHR ''&'' = None" "hexval CHR ''='' = None"
  "hexval CHR ''%'' = None"
  by (simp_all add: hexval_def)

lemma safe_char_not_special:
  "safe_char c \<Longrightarrow> c \<noteq> CHR ''%'' \<and> c \<noteq> CHR ''+'' \<and> c \<noteq> CHR ''&'' \<and> c \<noteq> CHR ''=''"
  by (auto simp: safe_char_def)

lemma show15: "show_int 15 = ''15''"
  by (simp add: show_int_def show_nat.simps digit_char_def)


lemma unquote_plain: "c \<noteq> CHR ''%'' \<Longrightarrow> unquote (c # t) = c # unquote t"
  by (cases "c # t" rule: unquote.cases) simp_all

declare unquote.simps [simp del]

lemma unquote_escape:
  "hexval h1 = Some a \<Longrightarrow> hexval h2 = Some b \<Longrightarrow>
   unquote (CHR ''%'' # h1 # h2 # t) = char_of (16 * a + b) # unquote t"
  by (simp add: unquote.simps)

lemma hexval_not_plus: "hexval h = Some a \<Longrightarrow> plus_to_space h = h"
  by (auto simp: plus_to_space_def)

lemma unquote_quote_char:
  "unquote (map plus_to_space (quote_char c) @ t) = c # unquote t"
proof (cases "safe_char c")
  case True
  then have "c \<noteq> CHR ''%''" "c \<noteq> CHR ''+''" using safe_char_not_special by auto
  with True show ?thesis by (simp add: quote_char_def plus_to_space_def unquote_plain)
next
  case False
  show ?thesis
  proof (cases "c = CHR '' ''")
    case True
    with False show ?thesis by (simp add: quote_char_def plus_to_space_def unquote_plain)
  next
    case sp: False
    let ?n = "of_char c :: nat"
    have lt: "?n div 16 < 16" "?n mod 16 < 16"
      using nat_of_char_less_256 [of c] by (simp_all add: less_mult_imp_div_less)
    have h1: "hexval (hex_digit (?n div 16)) = Some (?n div 16)"
      and h2: "hexval (hex_digit (?n mod 16)) = Some (?n mod 16)"
      using lt by (simp_all add: hexval_hex_digit)
    have q: "quote_char c = [CHR ''%'', hex_digit (?n div 16), hex_digit (?n mod 16)]"
      using False sp by (simp add: quote_char_def)
    have "unquote (map plus_to_space (quote_char c) @ t)
            = unquote (CHR ''%'' # hex_digit (?n div 16) # hex_digit (?n mod 16) # t)"
      by (simp add: q hexval_not_plus [OF h1] hexval_not_plus [OF h2]) (simp add: plus_to_space_def)
    also have "\<dots> = char_of (16 * (?n div 16) + ?n mod 16) # unquote t"
      by (rule unquote_escape [OF h1 h2])
    also have "16 * (?n div 16) + ?n mod 16 = ?n" by simp
    finally show ?thesis by simp
  qed
qed

lemma unquote_quote_plus_append:
  "unquote (map plus_to_space (quote_plus s)) = s"
  by (induction s) (simp_all add: quote_plus_def unquote_quote_char unquote.simps)

lemma unquote_plus_quote_plus: "unquote_plus (quote_plus s) = s"
  by (simp add: unquote_plus_def unquote_quote_plus_append)


lemma quote_char_no_separator:
  assumes "d \<in> set (quote_char c)"
  shows "d \<noteq> CHR ''&'' \<and> d \<noteq> CHR ''=''"
proof (cases "safe_char c")
  case True
  with assms have "d = c" by (simp add: quote_char_def)
  with True safe_char_not_special show ?thesis by blast
next
  case False
  let ?n = "of_char c :: nat"
  have lt: "?n div 16 < 16" "?n mod 16 < 16"
    using nat_of_char_less_256 [of c] by (simp_all add: less_mult_imp_div_less)
  from assms False
  have "d = CHR ''+'' \<or> d = CHR ''%'' \<or> d = hex_digit (?n div 16) \<or> d = hex_digit (?n mod 16)"
    by (auto simp: quote_char_def split: if_splits)
  moreover have "hexval (hex_digit (?n div 16)) \<noteq> None" "hexval (hex_digit (?n mod 16)) \<noteq> None"
    using lt by (simp_all add: hexval_hex_digit)
  ultimately show ?thesis by auto
qed

lemma quote_plus_no_separator:
  "CHR ''&'' \<notin> set (quote_plus s) \<and> CHR ''='' \<notin> set (quote_plus s)"
  using quote_char_no_separator by (fastforce simp: quote_plus_def)

lemma split_on_not_Nil: "split_on sep s \<noteq> []"
  by (induction s) (auto split: list.splits)

lemma split_on_no_sep: "sep \<notin> set x \<Longrightarrow> split_on sep x = [x]"
  by (induction x) auto

lemma split_on_append:
  "sep \<notin> set x \<Longrightarrow> split_on sep (x @ sep # r) = x # split_on sep r"
  by (induction x) (auto split: list.splits simp: split_on_not_Nil)

lemma split_on_join:
  "xs \<noteq> [] \<Longrightarrow> (\<And>x. x \<in> set xs \<Longrightarrow> sep \<notin> set x) \<Longrightarrow> split_on sep (join [sep] xs) = xs"
proof (induction "[sep]" xs rule: join.induct)
  case 1
  then show ?case by simp
next
  case (2 x)
  then show ?case by (simp add: split_on_no_sep)
next
  case (3 x y ys)
  then show ?case by (simp add: split_on_append)
qed

lemma parse_pair_quoted:
  "parse_pair (quote_plus k @ CHR ''='' # quote_plus v) = (k, v)"
proof -
  have k: "CHR ''='' \<notin> set (quote_plus k)" using quote_plus_no_separator by blast
  then have t: "takeWhile (\<lambda>c. c \<noteq> CHR ''='') (quote_plus k @ CHR ''='' # quote_plus v) = quote_plus k"
    by (subst takeWhile_append2) auto
  have d: "dropWhile (\<lambda>c. c \<noteq> CHR ''='') (quote_plus k @ CHR ''='' # quote_plus v)
             = CHR ''='' # quote_plus v"
    using k by (subst dropWhile_append2) auto
  show ?thesis
    by (simp add: parse_pair_def t d unquote_plus_quote_plus)
qed

lemma parse_qsl_urlencode:
  "parse_qsl (urlencode e params) = map (\<lambda>kv. (fst kv, py_str e (snd kv))) params"
proof (cases "params = []")
  case True
  then show ?thesis by (simp add: parse_qsl_def urlencode_def)
next
  case False
  let ?ps = "map (\<lambda>kv. quote_plus (fst kv) @ ''='' @ quote_plus (py_str e (snd kv))) params"
  have ne: "?ps \<noteq> []" using False by simp
  have nosep: "CHR ''&'' \<notin> set x" if "x \<in> set ?ps" for x
    using that quote_plus_no_separator by auto
  have sp: "split_on CHR ''&'' (urlencode e params) = ?ps"
    unfolding urlencode_def using split_on_join [OF ne nosep] by simp
  have nonempty: "filter (\<lambda>p. p \<noteq> []) ?ps = ?ps"
    by (simp add: filter_id_conv)
  show ?thesis
    by (simp only: parse_qsl_def sp nonempty) (simp add: parse_pair_quoted)
qed

lemma url_query_build:
  "url_query (build_recommendations_url e params) = urlencode e params"
  by (simp add: url_query_def build_recommendations_url_def API_BASE_URL_def)

text \<open>
  Claim C9, as amended. Decoding the query string of the URL that
  \<open>build_recommendations_url\<close> builds gives back, in order, every key of the parameter
  dictionary with the string form \<open>str(v)\<close> of its value \<open>v\<close>, for every dictionary, with
  or without the popularity keys, with empty and with non-ASCII strings.
\<close>
theorem recommendations_url_round_trip:
  "parse_qsl (url_query (build_recommendations_url e params)) =
     map (\<lambda>kv. (fst kv, py_str e (snd kv))) params"
  by (simp only: url_query_build parse_qsl_urlencode)

theorem recommendations_url_round_trip_witness:
  "parse_qsl (url_query (build_recommendations_url stub_env
       [(''seed_artists'', JStr ''5ficpwpxT4Gz9OsA3h3fFA''), (''seed_genres'', JStr ''work-out''),
        (''limit'', JInt 15), (''market'', JStr ''US'')])) =
     [(''seed_artists'', ''5ficpwpxT4Gz9OsA3h3fFA''), (''seed_genres'', ''work-out''),
      (''limit'', ''15''), (''market'', ''US'')]"
  using recommendations_url_round_trip
          [of stub_env "[(''seed_artists'', JStr ''5ficpwpxT4Gz9OsA3h3fFA''),
                         (''seed_genres'', JStr ''work-out''),
                         (''limit'', JInt 15), (''market'', JStr ''US'')]"]
  by (simp add: show15)

text \<open>
  Claim C9 as stated asks for the original key/value set, exactly. An integer value and
  the string of its digits give the same URL, so no decoder can return both originals.
\<close>
theorem recommendations_url_forgets_value_types:
  "build_recommendations_url stub_env [(''limit'', JInt 15)] =
     build_recommendations_url stub_env [(''limit'', JStr ''15'')]
   \<and> build_recommendations_url stub_env [(''limit'', JInt 15)] =
       ''https://api.spotify.com/v1/recommendations?limit=15''
   \<and> [(''limit'', JInt 15)] \<noteq> [(''limit'', JStr ''15'')]"
  by (simp add: build_recommendations_url_def urlencode_def show15 API_BASE_URL_def
        quote_plus_def quote_char_def safe_char_def)

end
